theory Spec2Isabelle
  imports Main "HOL-Library.Sublist"
begin

section \<open>Text: the string operations of Python that the source calls\<close>

text \<open>
  A Python \<open>str\<close> is a sequence of code points. Texts are embedded as \<open>string\<close>, one
  \<open>char\<close> per code point, for the code points below 256 (Latin-1); every constant text of
  the source that the embedding needs lies in that range. \<open>str.isspace\<close>, \<open>str.lower\<close> and
  the title-casing of \<open>str.capitalize\<close> follow the Unicode tables on that range. Three
  code points have a title-case form outside the range (U+00B5, U+00DF, U+00FF); they are
  kept as they are by \<open>title_chr\<close>.
\<close>

definition isspace :: "char \<Rightarrow> bool" where
  "isspace c =
     (let n = (of_char c :: nat)
      in (9 \<le> n \<and> n \<le> 13) \<or> (28 \<le> n \<and> n \<le> 32) \<or> n = 133 \<or> n = 160)"

definition lower_chr :: "char \<Rightarrow> char" where
  "lower_chr c =
     (let n = (of_char c :: nat)
      in if (65 \<le> n \<and> n \<le> 90) \<or> (192 \<le> n \<and> n \<le> 222 \<and> n \<noteq> 215)
         then char_of (n + 32) else c)"

definition title_chr :: "char \<Rightarrow> char" where
  "title_chr c =
     (let n = (of_char c :: nat)
      in if (97 \<le> n \<and> n \<le> 122) \<or> (224 \<le> n \<and> n \<le> 254 \<and> n \<noteq> 247)
         then char_of (n - 32) else c)"

text \<open>\<open>s.lower()\<close>\<close>

definition lower :: "string \<Rightarrow> string" where
  "lower s = map lower_chr s"

text \<open>\<open>s.capitalize()\<close>: the first character title-cased, the rest lower-cased.\<close>

definition capitalize :: "string \<Rightarrow> string" where
  "capitalize s = (case s of [] \<Rightarrow> [] | c # cs \<Rightarrow> title_chr c # map lower_chr cs)"

text \<open>
  \<open>s.split()\<close> with no argument: the maximal runs of characters that are not whitespace,
  in order. \<open>split_from cur s\<close> scans \<open>s\<close> with the token \<open>cur\<close> under construction.
\<close>

fun split_from :: "string \<Rightarrow> string \<Rightarrow> string list" where
  "split_from cur [] = (if cur = [] then [] else [cur])"
| "split_from cur (c # cs) =
     (if isspace c
      then (if cur = [] then split_from [] cs else cur # split_from [] cs)
      else split_from (cur @ [c]) cs)"

definition split :: "string \<Rightarrow> string list" where
  "split s = split_from [] s"

text \<open>\<open>s.strip()\<close>: whitespace removed at both ends.\<close>

definition strip :: "string \<Rightarrow> string" where
  "strip s = rev (dropWhile isspace (rev (dropWhile isspace s)))"

text \<open>\<open>sep.join(parts)\<close>\<close>

fun join :: "string \<Rightarrow> string list \<Rightarrow> string" where
  "join sep [] = []"
| "join sep [p] = p"
| "join sep (p # q # ps) = p @ sep @ join sep (q # ps)"

section \<open>prompts.py: name detection and greeting texts\<close>

definition palabras_clave :: "string list" where
  "palabras_clave = [''soy'', ''llamo'', ''es'', ''nombre'']"

text \<open>
  The \<open>for i, palabra in enumerate(palabras)\<close> loop of \<open>detect_name_from_input\<close>, from
  index \<open>i\<close> on: the first keyword that has a successor decides.
\<close>

function detect_loop :: "string list \<Rightarrow> nat \<Rightarrow> string option" where
  "detect_loop palabras i =
     (if i < length palabras
      then (if lower (palabras ! i) \<in> set palabras_clave \<and> i + 1 < length palabras
            then Some (capitalize (palabras ! (i + 1)))
            else detect_loop palabras (i + 1))
      else None)"
  by pat_completeness auto
termination
  by (relation "measure (\<lambda>(palabras, i). length palabras - i)") auto

declare detect_loop.simps [simp del]

definition detect_name_from_input :: "string \<Rightarrow> string option" where
  "detect_name_from_input user_input = detect_loop (split user_input) 0"

text \<open>
  Python's truth value of an optional text, as in \<open>if name:\<close> and
  \<open>session_id if session_id else ...\<close>: \<open>None\<close> and the empty text are false.
\<close>

definition truthy :: "string option \<Rightarrow> bool" where
  "truthy v = (case v of None \<Rightarrow> False | Some t \<Rightarrow> t \<noteq> [])"

definition GREETING_MESSAGES :: "(string \<times> string) list" where
  "GREETING_MESSAGES =
     [(''welcome'', CHR 0xA1 # ''Hola {nombre}! '' @ CHR 0xBF # ''En qu'' @ CHR 0xE9 # '' puedo ayudarte hoy?''),
      (''welcome_generic'', CHR 0xA1 # ''Hola! '' @ CHR 0xBF # ''En qu'' @ CHR 0xE9 # '' puedo ayudarte hoy?''),
      (''ask_name'', CHR 0xA1 # ''Hola! Antes de comenzar, '' @ CHR 0xBF # ''cu'' @ CHR 0xE1 # ''l es tu nombre?'')]"

section \<open>The conversation memory of the library\<close>

text \<open>
  \<open>ConversationBufferWindowMemory\<close> is a class of the langchain library; the source
  constructs it with \<open>k=4\<close>, hands it to the retrieval chain and reads its attribute
  \<open>chat_memory.messages\<close>. The embedding keeps what the library class keeps: the list of
  all messages saved so far, and the configuration. \<open>save_context\<close> appends the human
  message and the AI message of a finished exchange; \<open>buffer_as_messages\<close> is the window
  the memory hands out as chat history, the slice \<open>messages[-k * 2:]\<close>.
\<close>

datatype message_type = human | ai

record base_message =
  msg_type :: message_type
  msg_content :: string

record window_memory =
  messages :: "base_message list"
  mem_k :: nat
  ai_prefix :: string
  human_prefix :: string
  memory_key :: string
  return_messages :: bool

definition save_context :: "window_memory \<Rightarrow> string \<Rightarrow> string \<Rightarrow> window_memory" where
  "save_context m input_str output_str =
     m\<lparr>messages := messages m @
          [\<lparr>msg_type = human, msg_content = input_str\<rparr>,
           \<lparr>msg_type = ai, msg_content = output_str\<rparr>]\<rparr>"

definition buffer_as_messages :: "window_memory \<Rightarrow> base_message list" where
  "buffer_as_messages m =
     (if mem_k m > 0 then drop (length (messages m) - mem_k m * 2) (messages m) else [])"

section \<open>session\_manager.py: the session store\<close>

record session =
  memory :: window_memory
  name :: "string option"
  greeted :: bool

type_synonym sessions = "string \<rightharpoonup> session"

text \<open>The dictionary that \<open>_get_or_create_session\<close> stores for an unknown id.\<close>

definition new_session :: session where
  "new_session =
     \<lparr>memory = \<lparr>messages = [], mem_k = 4, ai_prefix = ''Asistente'',
                 human_prefix = ''Usuario'', memory_key = ''chat_history'',
                 return_messages = True\<rparr>,
      name = None, greeted = False\<rparr>"

text \<open>
  \<open>get_or_create_session_id\<close>; \<open>uuid\<close> is the text of the identifier that
  \<open>str(uuid.uuid4())\<close> draws when it is called.
\<close>

definition get_or_create_session_id :: "string option \<Rightarrow> string \<Rightarrow> string" where
  "get_or_create_session_id session_id uuid =
     (if truthy session_id then the session_id else uuid)"

text \<open>
  Every method of the store takes the dictionary \<open>self.sessions\<close> and returns it as it
  is after the call, next to the method's result when it has one.
\<close>

definition get_or_create_session :: "sessions \<Rightarrow> string \<Rightarrow> session \<times> sessions" where
  "get_or_create_session sessions session_id =
     (case sessions session_id of
        None \<Rightarrow> (new_session, sessions(session_id \<mapsto> new_session))
      | Some s \<Rightarrow> (s, sessions))"

definition get_or_create_memory :: "sessions \<Rightarrow> string \<Rightarrow> window_memory \<times> sessions" where
  "get_or_create_memory sessions session_id =
     (let (s, sessions') = get_or_create_session sessions session_id
      in (memory s, sessions'))"

definition clear_session :: "sessions \<Rightarrow> string \<Rightarrow> sessions" where
  "clear_session sessions session_id = sessions(session_id := None)"

definition save_name :: "sessions \<Rightarrow> string \<Rightarrow> string \<Rightarrow> sessions" where
  "save_name sessions session_id nm =
     (let (s, sessions') = get_or_create_session sessions session_id
      in sessions'(session_id \<mapsto> s\<lparr>name := Some nm\<rparr>))"

definition get_name :: "sessions \<Rightarrow> string \<Rightarrow> string option \<times> sessions" where
  "get_name sessions session_id =
     (case sessions session_id of
        Some s \<Rightarrow> (name s, sessions)
      | None \<Rightarrow> (None, sessions))"

definition has_name :: "sessions \<Rightarrow> string \<Rightarrow> bool \<times> sessions" where
  "has_name sessions session_id =
     (case sessions session_id of
        Some s \<Rightarrow> (name s \<noteq> None, sessions)
      | None \<Rightarrow> (False, sessions))"

definition has_greeted :: "sessions \<Rightarrow> string \<Rightarrow> bool \<times> sessions" where
  "has_greeted sessions session_id =
     (case sessions session_id of
        Some s \<Rightarrow> (greeted s, sessions)
      | None \<Rightarrow> (False, sessions))"

definition mark_as_greeted :: "sessions \<Rightarrow> string \<Rightarrow> sessions" where
  "mark_as_greeted sessions session_id =
     (let (s, sessions') = get_or_create_session sessions session_id
      in sessions'(session_id \<mapsto> s\<lparr>greeted := True\<rparr>))"

text \<open>
  The dictionaries \<open>{"role": ..., "content": ...}\<close> that \<open>get_history\<close> builds. Every
  message of the library has the attribute \<open>content\<close>, so the \<open>hasattr\<close> test of the loop
  keeps every message.
\<close>

record chat_entry =
  role :: string
  content :: string

definition format_message :: "base_message \<Rightarrow> chat_entry" where
  "format_message msg =
     \<lparr>role = (if msg_type msg = human then ''user'' else ''assistant''),
      content = msg_content msg\<rparr>"

definition get_history :: "sessions \<Rightarrow> string \<Rightarrow> chat_entry list option \<times> sessions" where
  "get_history sessions session_id =
     (case sessions session_id of
        None \<Rightarrow> (None, sessions)
      | Some s \<Rightarrow> (Some (map format_message (messages (memory s))), sessions))"

section \<open>chatbot.py: the conversation engine\<close>

datatype exn = Exception string

text \<open>
  The retrieval chain is built by the library from the model, the retriever and the
  session's memory. One run of it, as \<open>stream_response\<close> sees it: the chunks that the
  stream hands over, each a dictionary, and then how the stream ends: it raises, or it
  finishes, and the chain has then saved the question and its answer with
  \<open>save_context\<close>. The chain reads the chat history from the memory's window.
\<close>

type_synonym chunk = "string \<rightharpoonup> string"

record chain_run =
  chunks :: "chunk list"
  outcome :: "exn + string"

type_synonym qa_chain = "base_message list \<Rightarrow> string \<Rightarrow> chain_run"

definition error_msg :: string where
  "error_msg = ''Lo siento, ocurri'' @ CHR 0xF3 # '' un error al procesar tu mensaje. Por favor, int''
                 @ CHR 0xE9 # ''ntalo de nuevo.''"

text \<open>
  The loop \<open>async for chunk in response_stream\<close>: the fragments it yields, in order.
\<close>

fun yielded :: "chunk list \<Rightarrow> string list" where
  "yielded [] = []"
| "yielded (chunk # rest) =
     (let content = (case chunk ''answer'' of None \<Rightarrow> [] | Some a \<Rightarrow> a)
      in if content \<noteq> [] then content # yielded rest else yielded rest)"

text \<open>
  \<open>stream_response\<close>: the fragments the generator yields, in order, and the store after
  the call. An exception of the chain is caught by the \<open>except\<close> clause around the whole
  body, after the fragments already yielded.
\<close>

definition stream_response ::
  "qa_chain \<Rightarrow> string \<Rightarrow> sessions \<Rightarrow> string \<Rightarrow> string option \<Rightarrow> string list \<times> sessions" where
  "stream_response qa uuid sessions user_input session_id =
     (let sid = get_or_create_session_id session_id uuid
      in if \<not> fst (has_greeted sessions sid)
         then
           (let detected = detect_name_from_input user_input;
                generic = (case map_of GREETING_MESSAGES ''welcome_generic'' of
                             Some g \<Rightarrow> g
                           | None \<Rightarrow> CHR 0xA1 # ''Hola! '' @ CHR 0xBF # ''En qu'' @ CHR 0xE9 #
                                       '' puedo ayudarte hoy?'');
                greeting = (if truthy detected
                            then CHR 0xA1 # ''Hola '' @ the detected @ ''! '' @ CHR 0xBF # ''En qu''
                                   @ CHR 0xE9 # '' puedo ayudarte hoy?''
                            else generic)
            in ([greeting], mark_as_greeted sessions sid))
         else
           (let (mem, sessions') = get_or_create_memory sessions sid;
                run = qa (buffer_as_messages mem) user_input
            in case outcome run of
                 Inl e \<Rightarrow> (yielded (chunks run) @ [error_msg], sessions')
               | Inr answer \<Rightarrow>
                   (yielded (chunks run),
                    (case sessions' sid of
                       None \<Rightarrow> sessions'
                     | Some s \<Rightarrow>
                         sessions'(sid \<mapsto> s\<lparr>memory := save_context (memory s) user_input answer\<rparr>)))))"


text \<open>
  \<open>generate_summary\<close>. \<open>summary_chain\<close> is \<open>chain.run\<close> of the library, applied to the
  formatted history: it returns the model's text or raises.
\<close>

definition summary_fallback :: string where
  "summary_fallback = ''No se pudo generar el resumen. Por favor, int'' @ CHR 0xE9 #
                        ''ntalo de nuevo m'' @ CHR 0xE1 # ''s tarde.''"

definition formatted_history :: "chat_entry list \<Rightarrow> string" where
  "formatted_history chat_history =
     join [CHR 0x0A] (map (\<lambda>msg. capitalize (role msg) @ '': '' @ content msg) chat_history)"

definition generate_summary_try :: "(string \<Rightarrow> exn + string) \<Rightarrow> chat_entry list \<Rightarrow> exn + string" where
  "generate_summary_try summary_chain chat_history =
     (case summary_chain (formatted_history chat_history) of
        Inl e \<Rightarrow> Inl e
      | Inr summary \<Rightarrow> Inr (strip summary))"

definition generate_summary :: "(string \<Rightarrow> exn + string) \<Rightarrow> chat_entry list \<Rightarrow> string" where
  "generate_summary summary_chain chat_history =
     (case generate_summary_try summary_chain chat_history of
        Inr summary \<Rightarrow> summary
      | Inl e \<Rightarrow> summary_fallback)"

section \<open>main.py: the summary endpoint\<close>

datatype http_exception = HTTPException nat string

record summary_request =
  request_session_id :: string
  request_email :: string

text \<open>
  \<open>create_summary\<close>. The two services are looked up in \<open>service_instances\<close> and may be
  absent; \<open>send_summary_email\<close> reports whether the mail was sent.
\<close>

definition create_summary ::
  "sessions option \<Rightarrow> (string \<Rightarrow> exn + string) option \<Rightarrow> (string \<Rightarrow> string \<Rightarrow> bool) \<Rightarrow>
   summary_request \<Rightarrow> http_exception + string" where
  "create_summary session_manager chatbot_service send_summary_email request =
     (case session_manager of
        None \<Rightarrow> Inl (HTTPException 500 ''Error interno del servidor'')
      | Some sessions \<Rightarrow>
          (case fst (get_history sessions (request_session_id request)) of
             None \<Rightarrow> Inl (HTTPException 404 (''No se encontr'' @ CHR 0xF3 # '' historial para la sesi''
                                                @ CHR 0xF3 # ''n''))
           | Some history \<Rightarrow>
               if history = []
               then Inl (HTTPException 404 (''No se encontr'' @ CHR 0xF3 # '' historial para la sesi''
                                              @ CHR 0xF3 # ''n''))
               else
                 (case chatbot_service of
                    None \<Rightarrow> Inl (HTTPException 500 ''Error interno del servidor'')
                  | Some summary_chain \<Rightarrow>
                      (let summary = generate_summary summary_chain history
                       in if \<not> send_summary_email (request_email request) summary
                          then Inl (HTTPException 500 ''Error al enviar el correo'')
                          else Inr ''Resumen enviado exitosamente''))))"

section \<open>Concrete sessions and collaborators\<close>

text \<open>
  States and collaborators on which the theorems below are evaluated: the session as the
  first call leaves it, a session after one exchange, chains that answer, that answer in
  several chunks, that fail after a chunk and that fail at once, summary chains, and a mail
  transport that delivers.
\<close>

definition greeted_new :: session where
  "greeted_new = new_session\<lparr>greeted := True\<rparr>"

definition talked_session :: session where
  "talked_session = greeted_new\<lparr>memory := save_context (memory greeted_new) ''hola'' ''dime''\<rparr>"


definition mixed_chain :: qa_chain where
  "mixed_chain history question =
     \<lparr>chunks = [[''answer'' \<mapsto> ''''], Map.empty, [''answer'' \<mapsto> ''Hola''], [''question'' \<mapsto> question]],
      outcome = Inr ''Hola''\<rparr>"


definition down_chain :: qa_chain where
  "down_chain history question = \<lparr>chunks = [], outcome = Inl (Exception ''unreachable'')\<rparr>"

definition ok_summary_chain :: "string \<Rightarrow> exn + string" where
  "ok_summary_chain history_text = Inr ('' Resumen de '' @ history_text @ [CHR 0x0A])"

definition down_summary_chain :: "string \<Rightarrow> exn + string" where
  "down_summary_chain history_text = Inl (Exception ''timeout'')"

definition mail_ok :: "string \<Rightarrow> string \<Rightarrow> bool" where
  "mail_ok to_email summary_text = True"

section \<open>Properties of the text operations and of the name detection\<close>

lemma split_from_tokens:
  "t \<in> set (split_from cur s) \<Longrightarrow> \<forall>c \<in> set cur. \<not> isspace c \<Longrightarrow>
   t \<noteq> [] \<and> (\<forall>c \<in> set t. \<not> isspace c)"
proof (induction s arbitrary: cur)
  case Nil
  then show ?case by (cases "cur = []") simp_all
next
  case (Cons a s)
  show ?case
  proof (cases "isspace a")
    case False
    with Cons.prems have "t \<in> set (split_from (cur @ [a]) s)"
      and "\<forall>c \<in> set (cur @ [a]). \<not> isspace c" by simp_all
    then show ?thesis by (rule Cons.IH)
  next
    case True
    have e: "\<forall>c \<in> set ([]::string). \<not> isspace c" by simp
    show ?thesis
    proof (cases "cur = []")
      case True
      with \<open>isspace a\<close> Cons.prems have "t \<in> set (split_from [] s)" by simp
      then show ?thesis using e by (rule Cons.IH)
    next
      case False
      with \<open>isspace a\<close> Cons.prems have "t = cur \<or> t \<in> set (split_from [] s)" by simp
      then show ?thesis
      proof
        assume "t = cur"
        with False Cons.prems(2) show ?thesis by simp
      next
        assume "t \<in> set (split_from [] s)"
        then show ?thesis using e by (rule Cons.IH)
      qed
    qed
  qed
qed

lemma split_from_concat:
  "concat (split_from cur s) = cur @ filter (\<lambda>c. \<not> isspace c) s"
  by (induction s arbitrary: cur) simp_all

lemma capitalize_nonempty: "t \<noteq> [] \<Longrightarrow> capitalize t \<noteq> []"
  by (cases t) (simp_all add: capitalize_def)


lemma detect_loop_Some:
  "detect_loop ps i = Some v \<Longrightarrow>
   \<exists>j. i \<le> j \<and> j + 1 < length ps \<and> lower (ps ! j) \<in> set palabras_clave \<and>
       (\<forall>k. i \<le> k \<and> k < j \<longrightarrow> lower (ps ! k) \<notin> set palabras_clave) \<and>
       v = capitalize (ps ! (j + 1))"
proof (induction ps i rule: detect_loop.induct)
  case (1 ps i)
  from "1.prems" have inb: "i < length ps"
    by (subst (asm) detect_loop.simps) (simp split: if_splits)
  show ?case
  proof (cases "lower (ps ! i) \<in> set palabras_clave \<and> i + 1 < length ps")
    case True
    with "1.prems" inb have "v = capitalize (ps ! (i + 1))"
      by (subst (asm) detect_loop.simps) simp
    with True show ?thesis by (intro exI[of _ i]) auto
  next
    case False
    with "1.prems" inb have "detect_loop ps (i + 1) = Some v"
      by (subst (asm) detect_loop.simps) (auto split: if_splits)
    with "1.IH" inb False obtain j where j: "i + 1 \<le> j" "j + 1 < length ps"
      "lower (ps ! j) \<in> set palabras_clave"
      "\<forall>k. i + 1 \<le> k \<and> k < j \<longrightarrow> lower (ps ! k) \<notin> set palabras_clave"
      "v = capitalize (ps ! (j + 1))"
      by blast
    from j(1,2) have "i + 1 < length ps" by simp
    with False have ni: "lower (ps ! i) \<notin> set palabras_clave" by simp
    have "\<forall>k. i \<le> k \<and> k < j \<longrightarrow> lower (ps ! k) \<notin> set palabras_clave"
    proof (intro allI impI)
      fix k assume k: "i \<le> k \<and> k < j"
      show "lower (ps ! k) \<notin> set palabras_clave"
      proof (cases "k = i")
        case True with ni show ?thesis by simp
      next
        case False with k have "i + 1 \<le> k" by simp
        with j(4) k show ?thesis by blast
      qed
    qed
    with j show ?thesis by (intro exI[of _ j]) simp
  qed
qed


lemma split_hola: "split ''Hola, soy Marta'' = [''Hola,'', ''soy'', ''Marta'']"
  by (simp add: split_def isspace_def)




section \<open>Properties of the session store\<close>

lemma new_session_fields:
  "messages (memory new_session) = []" "mem_k (memory new_session) = 4"
  "greeted new_session = False" "name new_session = None"
  by (simp_all add: new_session_def)

lemma get_or_create_session_unknown:
  "sessions session_id = None \<Longrightarrow>
   get_or_create_session sessions session_id = (new_session, sessions(session_id \<mapsto> new_session))"
  by (simp add: get_or_create_session_def)

lemma get_or_create_session_known:
  "sessions session_id = Some s \<Longrightarrow> get_or_create_session sessions session_id = (s, sessions)"
  by (simp add: get_or_create_session_def)

text \<open>
  Claim C7. After \<open>clear_session\<close>, \<open>_get_or_create_session\<close> on the same id returns the
  session that it creates for any id the store does not know: no messages, not greeted,
  no name; and the accessors of the store read it so.
\<close>

theorem clear_then_get_or_create_fresh:
  "fst (get_or_create_session (clear_session sessions session_id) session_id) = new_session \<and>
   messages (memory new_session) = [] \<and> greeted new_session = False \<and> name new_session = None \<and>
   (sessions' other_id = None \<longrightarrow>
      fst (get_or_create_session sessions' other_id) =
      fst (get_or_create_session (clear_session sessions session_id) session_id)) \<and>
   fst (get_history (snd (get_or_create_session (clear_session sessions session_id) session_id)) session_id) = Some [] \<and>
   fst (has_greeted (snd (get_or_create_session (clear_session sessions session_id) session_id)) session_id) = False \<and>
   fst (get_name (snd (get_or_create_session (clear_session sessions session_id) session_id)) session_id) = None"
proof -
  have c: "clear_session sessions session_id session_id = None"
    by (simp add: clear_session_def)
  have g: "get_or_create_session (clear_session sessions session_id) session_id =
           (new_session, (clear_session sessions session_id)(session_id \<mapsto> new_session))"
    using c by (rule get_or_create_session_unknown)
  have o: "sessions' other_id = None \<longrightarrow> fst (get_or_create_session sessions' other_id) = new_session"
    by (simp add: get_or_create_session_unknown)
  show ?thesis
    using o by (simp add: g new_session_fields get_history_def has_greeted_def get_name_def)
qed

text \<open>
  Claim C7, evaluated: a greeted session is cleared and created again; it equals the
  session created for an unknown id in an empty store, and is no longer greeted.
\<close>

theorem clear_then_get_or_create_fresh_witness:
  "(Map.empty :: sessions) ''b'' = None \<and>
   fst (get_or_create_session (Map.empty :: sessions) ''b'') =
   fst (get_or_create_session (clear_session [''a'' \<mapsto> greeted_new] ''a'') ''a'') \<and>
   greeted (fst (get_or_create_session [''a'' \<mapsto> greeted_new] ''a'')) \<and>
   \<not> greeted (fst (get_or_create_session (clear_session [''a'' \<mapsto> greeted_new] ''a'') ''a''))"
proof -
  have e: "(Map.empty :: sessions) ''b'' = None" by simp
  have k: "greeted (fst (get_or_create_session [''a'' \<mapsto> greeted_new] ''a''))"
    by (simp add: get_or_create_session_known greeted_new_def)
  from clear_then_get_or_create_fresh [of "[''a'' \<mapsto> greeted_new]" "''a''" "Map.empty" "''b''"] e k
  show ?thesis by simp
qed

text \<open>
  Claim C8 as stated fails for the empty text: \<open>get_or_create_session_id\<close> tests the
  truth value of its argument, so a provided \<open>""\<close> is replaced by the drawn identifier.
\<close>

theorem get_or_create_session_id_empty_counterexample:
  "get_or_create_session_id (Some '''') ''0f8fad5b-d9cb-469f-a165-70867728950e'' \<noteq> ''''"
  by (simp add: get_or_create_session_id_def truthy_def)

text \<open>
  Claim C8, amended. A provided id that is not empty is returned unchanged; when no id is
  provided, or the provided id is the empty text, the result is the drawn identifier.
\<close>

theorem get_or_create_session_id_spec:
  "(sid \<noteq> [] \<longrightarrow> get_or_create_session_id (Some sid) uuid = sid) \<and>
   get_or_create_session_id (Some []) uuid = uuid \<and>
   get_or_create_session_id None uuid = uuid"
  by (simp add: get_or_create_session_id_def truthy_def)

text \<open>
  Claim C8, amended, evaluated at the id \<open>abc\<close>.
\<close>

theorem get_or_create_session_id_spec_witness:
  "''abc'' \<noteq> [] \<and> get_or_create_session_id (Some ''abc'') ''0f8fad5b-d9cb-469f-a165-70867728950e'' = ''abc''"
  using get_or_create_session_id_spec [of "''abc''" "''0f8fad5b-d9cb-469f-a165-70867728950e''"]
  by simp

text \<open>
  Claim C9. \<open>get_name\<close>, \<open>has_name\<close>, \<open>has_greeted\<close> and \<open>get_history\<close> return the store as
  they found it, for known and unknown ids alike. For an unknown id they answer \<open>None\<close> or
  \<open>False\<close>, while \<open>mark_as_greeted\<close> and \<open>save_name\<close> store a new session under the id and
  set the field in it.
\<close>

theorem accessors_frame:
  "snd (get_name sessions session_id) = sessions \<and>
   snd (has_name sessions session_id) = sessions \<and>
   snd (has_greeted sessions session_id) = sessions \<and>
   snd (get_history sessions session_id) = sessions \<and>
   (sessions session_id = None \<longrightarrow>
      fst (get_name sessions session_id) = None \<and>
      fst (has_name sessions session_id) = False \<and>
      fst (has_greeted sessions session_id) = False \<and>
      fst (get_history sessions session_id) = None \<and>
      mark_as_greeted sessions session_id = sessions(session_id \<mapsto> new_session\<lparr>greeted := True\<rparr>) \<and>
      save_name sessions session_id nm = sessions(session_id \<mapsto> new_session\<lparr>name := Some nm\<rparr>))"
  by (simp add: get_name_def has_name_def has_greeted_def get_history_def mark_as_greeted_def
      save_name_def get_or_create_session_def split: option.splits)

text \<open>
  Claim C9, evaluated on the empty store.
\<close>

theorem accessors_frame_witness:
  "(Map.empty :: sessions) ''a'' = None \<and>
   snd (get_history Map.empty ''a'') = Map.empty \<and>
   fst (get_history Map.empty ''a'') = None \<and>
   dom (mark_as_greeted Map.empty ''a'') = {''a''} \<and>
   fst (has_greeted (mark_as_greeted Map.empty ''a'') ''a'') \<and>
   fst (get_name (save_name Map.empty ''a'' ''Marta'') ''a'') = Some ''Marta''"
  using accessors_frame [of Map.empty "''a''" "''Marta''"]
  by (simp add: has_greeted_def get_name_def)

section \<open>Properties of the conversation engine\<close>

lemma detect_name_nonempty:
  assumes "detect_name_from_input user_input = Some n"
  shows "n \<noteq> []"
proof -
  from assms have "detect_loop (split user_input) 0 = Some n"
    by (simp add: detect_name_from_input_def)
  from detect_loop_Some[OF this] obtain j where
    j: "j + 1 < length (split user_input)" "n = capitalize (split user_input ! (j + 1))"
    by blast
  from j(1) have "split user_input ! (j + 1) \<in> set (split_from [] user_input)"
    by (simp add: split_def)
  then have "split user_input ! (j + 1) \<noteq> []"
    using split_from_tokens by fastforce
  with j(2) show ?thesis by (simp add: capitalize_nonempty)
qed

lemma truthy_detect:
  "truthy (detect_name_from_input user_input) \<longleftrightarrow> detect_name_from_input user_input \<noteq> None"
  by (cases "detect_name_from_input user_input") (simp_all add: truthy_def detect_name_nonempty)

lemma welcome_generic:
  "map_of GREETING_MESSAGES ''welcome_generic'' =
   Some (CHR 0xA1 # ''Hola! '' @ CHR 0xBF # ''En qu'' @ CHR 0xE9 # '' puedo ayudarte hoy?'')"
  by (simp add: GREETING_MESSAGES_def)

lemma stream_response_ungreeted:
  assumes "\<not> fst (has_greeted sessions (get_or_create_session_id session_id uuid))"
  shows "stream_response qa uuid sessions user_input session_id =
         ([case detect_name_from_input user_input of
             None \<Rightarrow> CHR 0xA1 # ''Hola! '' @ CHR 0xBF # ''En qu'' @ CHR 0xE9 # '' puedo ayudarte hoy?''
           | Some n \<Rightarrow> CHR 0xA1 # ''Hola '' @ n @ ''! '' @ CHR 0xBF # ''En qu'' @ CHR 0xE9 #
                        '' puedo ayudarte hoy?''],
          mark_as_greeted sessions (get_or_create_session_id session_id uuid))"
proof (cases "detect_name_from_input user_input")
  case None
  with assms show ?thesis
    unfolding stream_response_def Let_def
    by (simp only: if_True if_False not_False_eq_True welcome_generic option.case truthy_def)
next
  case (Some n)
  then have t: "truthy (Some n)" using truthy_detect[of user_input] by simp
  from assms show ?thesis
    unfolding stream_response_def Let_def Some
    by (simp only: t if_True if_False not_False_eq_True welcome_generic option.case option.sel)
qed

lemma stream_response_active:
  assumes "sessions sid = Some s" "greeted s"
    and "get_or_create_session_id session_id uuid = sid"
  shows "stream_response qa uuid sessions user_input session_id =
         (case outcome (qa (buffer_as_messages (memory s)) user_input) of
            Inl e \<Rightarrow> (yielded (chunks (qa (buffer_as_messages (memory s)) user_input)) @ [error_msg], sessions)
          | Inr answer \<Rightarrow>
              (yielded (chunks (qa (buffer_as_messages (memory s)) user_input)),
               sessions(sid \<mapsto> s\<lparr>memory := save_context (memory s) user_input answer\<rparr>)))"
proof -
  have g: "fst (has_greeted sessions sid)" using assms(1,2) by (simp add: has_greeted_def)
  have m: "get_or_create_memory sessions sid = (memory s, sessions)"
    using assms(1) by (simp add: get_or_create_memory_def get_or_create_session_known)
  show ?thesis
    unfolding stream_response_def Let_def assms(3)
    using g assms(1) by (simp add: m split: sum.splits)
qed

lemma yielded_nonempty: "f \<in> set (yielded cs) \<Longrightarrow> f \<noteq> []"
  by (induction cs) (auto simp: Let_def split: if_splits option.splits)

lemma error_msg_nonempty: "error_msg \<noteq> []"
  by (simp add: error_msg_def)

lemma mark_as_greeted_eq:
  "mark_as_greeted sessions sid =
   sessions(sid \<mapsto> (case sessions sid of None \<Rightarrow> new_session | Some s \<Rightarrow> s)\<lparr>greeted := True\<rparr>)"
  by (cases "sessions sid")
     (simp_all add: mark_as_greeted_def get_or_create_session_unknown get_or_create_session_known)

lemma has_greeted_iff:
  "fst (has_greeted sessions sid) \<longleftrightarrow> (\<exists>s. sessions sid = Some s \<and> greeted s)"
  by (cases "sessions sid") (simp_all add: has_greeted_def)

lemma get_history_eq:
  "fst (get_history sessions sid) =
   map_option (\<lambda>s. map format_message (messages (memory s))) (sessions sid)"
  by (cases "sessions sid") (simp_all add: get_history_def)

lemma session_id_given: "sid \<noteq> [] \<Longrightarrow> get_or_create_session_id (Some sid) uuid = sid"
  by (simp add: get_or_create_session_id_def truthy_def)

text \<open>
  Claim C3. When the session of the call has not been greeted, \<open>stream_response\<close> yields
  exactly one fragment, the greeting: with the detected name when
  \<open>detect_name_from_input\<close> finds one, the generic greeting otherwise. The result does not
  depend on the chain. After the call the session is greeted, and its history is empty
  if the session was new (unchanged if it existed).
\<close>

theorem first_turn_greets:
  assumes "\<not> fst (has_greeted sessions (get_or_create_session_id session_id uuid))"
  shows "fst (stream_response qa uuid sessions user_input session_id) =
           [case detect_name_from_input user_input of
              None \<Rightarrow> CHR 0xA1 # ''Hola! '' @ CHR 0xBF # ''En qu'' @ CHR 0xE9 # '' puedo ayudarte hoy?''
            | Some n \<Rightarrow> CHR 0xA1 # ''Hola '' @ n @ ''! '' @ CHR 0xBF # ''En qu'' @ CHR 0xE9 #
                         '' puedo ayudarte hoy?''] \<and>
         stream_response qa' uuid sessions user_input session_id =
           stream_response qa uuid sessions user_input session_id \<and>
         fst (has_greeted (snd (stream_response qa uuid sessions user_input session_id))
                (get_or_create_session_id session_id uuid)) \<and>
         fst (get_history (snd (stream_response qa uuid sessions user_input session_id))
                (get_or_create_session_id session_id uuid)) =
           (case fst (get_history sessions (get_or_create_session_id session_id uuid)) of
              None \<Rightarrow> Some []
            | Some h \<Rightarrow> Some h)"
proof -
  let ?sid = "get_or_create_session_id session_id uuid"
  have g: "fst (has_greeted (mark_as_greeted sessions ?sid) ?sid)"
    by (simp add: has_greeted_iff mark_as_greeted_eq)
  have h: "fst (get_history (mark_as_greeted sessions ?sid) ?sid) =
           (case fst (get_history sessions ?sid) of None \<Rightarrow> Some [] | Some h \<Rightarrow> Some h)"
    by (cases "sessions ?sid") (simp_all add: get_history_eq mark_as_greeted_eq new_session_fields)
  show ?thesis
    by (simp only: stream_response_ungreeted[OF assms] fst_conv snd_conv g h simp_thms)
qed

text \<open>
  Claim C3, evaluated: a new session and the input \<open>Hola, soy Marta\<close>.
\<close>

theorem first_turn_greets_witness:
  "\<not> fst (has_greeted Map.empty (get_or_create_session_id (Some ''s1'') ''0f8fad5b-d9cb-469f-a165-70867728950e'')) \<and>
   fst (stream_response down_chain ''0f8fad5b-d9cb-469f-a165-70867728950e'' Map.empty ''Hola, soy Marta'' (Some ''s1''))
     = [CHR 0xA1 # ''Hola Marta! '' @ CHR 0xBF # ''En qu'' @ CHR 0xE9 # '' puedo ayudarte hoy?''] \<and>
   fst (has_greeted (snd (stream_response down_chain ''0f8fad5b-d9cb-469f-a165-70867728950e'' Map.empty
          ''Hola, soy Marta'' (Some ''s1''))) ''s1'') \<and>
   fst (get_history (snd (stream_response down_chain ''0f8fad5b-d9cb-469f-a165-70867728950e'' Map.empty
          ''Hola, soy Marta'' (Some ''s1''))) ''s1'') = Some []"
proof -
  have i: "get_or_create_session_id (Some ''s1'') ''0f8fad5b-d9cb-469f-a165-70867728950e'' = ''s1''"
    by (simp add: session_id_given)
  have n: "\<not> fst (has_greeted Map.empty (get_or_create_session_id (Some ''s1'') ''0f8fad5b-d9cb-469f-a165-70867728950e''))"
    by (simp add: has_greeted_iff)
  have d: "detect_name_from_input ''Hola, soy Marta'' = Some ''Marta''"
    by (simp add: detect_name_from_input_def split_hola detect_loop.simps lower_def lower_chr_def
        palabras_clave_def capitalize_def title_chr_def)
  have e: "fst (get_history Map.empty ''s1'') = None" by (simp add: get_history_eq)
  from first_turn_greets [OF n, of down_chain "''Hola, soy Marta''" down_chain] n
  show ?thesis by (simp add: i d e)
qed

text \<open>
  Claim C10. Every fragment that \<open>stream_response\<close> yields is a non-empty text: the
  greeting, the chunks' answers that pass the test of the loop, and the apology.
\<close>

theorem fragments_nonempty:
  "\<forall>f \<in> set (fst (stream_response qa uuid sessions user_input session_id)). f \<noteq> []"
proof (cases "fst (has_greeted sessions (get_or_create_session_id session_id uuid))")
  case False
  show ?thesis
    by (simp add: stream_response_ungreeted[OF False] split: option.splits)
next
  case True
  then obtain s where s: "sessions (get_or_create_session_id session_id uuid) = Some s" "greeted s"
    by (auto simp: has_greeted_iff)
  have a: "stream_response qa uuid sessions user_input session_id =
         (case outcome (qa (buffer_as_messages (memory s)) user_input) of
            Inl e \<Rightarrow> (yielded (chunks (qa (buffer_as_messages (memory s)) user_input)) @ [error_msg], sessions)
          | Inr answer \<Rightarrow>
              (yielded (chunks (qa (buffer_as_messages (memory s)) user_input)),
               sessions(get_or_create_session_id session_id uuid \<mapsto>
                 s\<lparr>memory := save_context (memory s) user_input answer\<rparr>)))"
    using s by (rule stream_response_active) simp
  show ?thesis
    by (auto simp: a error_msg_nonempty dest: yielded_nonempty split: sum.splits)
qed

text \<open>
  Claim C10, evaluated: of four chunks (an empty answer, no answer, an answer, no answer)
  only the third is yielded.
\<close>

theorem fragments_nonempty_witness:
  "fst (stream_response mixed_chain ''0f8fad5b-d9cb-469f-a165-70867728950e'' [''s1'' \<mapsto> greeted_new]
         ''me siento triste hoy'' (Some ''s1'')) = [''Hola''] \<and>
   ''Hola'' \<noteq> []"
proof -
  have s: "[''s1'' \<mapsto> greeted_new] ''s1'' = Some greeted_new" by simp
  have g: "greeted greeted_new" by (simp add: greeted_new_def)
  have i: "get_or_create_session_id (Some ''s1'') ''0f8fad5b-d9cb-469f-a165-70867728950e'' = ''s1''"
    by (simp add: session_id_given)
  have r: "fst (stream_response mixed_chain ''0f8fad5b-d9cb-469f-a165-70867728950e'' [''s1'' \<mapsto> greeted_new]
         ''me siento triste hoy'' (Some ''s1'')) = [''Hola'']"
    by (simp add: stream_response_active[where sessions = "[''s1'' \<mapsto> greeted_new]" and sid = "''s1''", OF s g i]
        mixed_chain_def)
  from fragments_nonempty [of mixed_chain "''0f8fad5b-d9cb-469f-a165-70867728950e''"
      "[''s1'' \<mapsto> greeted_new]" "''me siento triste hoy''" "Some ''s1''"] r
  show ?thesis by simp
qed




subsection \<open>History and window\<close>







lemma greeted_new_fields:
  "greeted greeted_new" "messages (memory greeted_new) = []" "mem_k (memory greeted_new) = 4"
  by (simp_all add: greeted_new_def new_session_fields)




section \<open>Properties of the summary\<close>

lemma strip_trimmed:
  "strip t \<noteq> [] \<Longrightarrow> \<not> isspace (hd (strip t)) \<and> \<not> isspace (last (strip t))"
proof -
  assume ne: "strip t \<noteq> []"
  let ?u = "dropWhile isspace t"
  let ?v = "dropWhile isspace (rev ?u)"
  have st: "strip t = rev ?v" by (simp add: strip_def)
  from ne st have v: "?v \<noteq> []" by simp
  have u: "?u \<noteq> []"
  proof
    assume a: "?u = []"
    have "?v = []" unfolding a by simp
    with v show False by simp
  qed
  have hv: "\<not> isspace (hd ?v)" using v by (rule hd_dropWhile)
  have hu: "\<not> isspace (hd ?u)" using u by (rule hd_dropWhile)
  have "last ?v = last (rev ?u)"
    using v by (metis last_appendR takeWhile_dropWhile_id)
  also have "\<dots> = hd ?u" using u by (simp add: last_rev)
  finally have lv: "last ?v = hd ?u" .
  have "hd (strip t) = last ?v" using v by (simp add: st hd_rev)
  moreover have "last (strip t) = hd ?v" using v by (simp add: st last_rev)
  ultimately show ?thesis using hv hu lv by simp
qed

lemma summary_fallback_nonempty: "summary_fallback \<noteq> []"
  by (simp add: summary_fallback_def)

text \<open>
  Claim C6. When the summary chain raises, \<open>generate_summary\<close> returns the fixed fallback
  text, which is not empty; when the chain returns a text, \<open>generate_summary\<close> returns it
  stripped, with no whitespace at either end. The result is a text in both cases.
\<close>

theorem generate_summary_spec:
  "(summary_chain (formatted_history chat_history) = Inl e \<longrightarrow>
      generate_summary summary_chain chat_history = summary_fallback) \<and>
   (summary_chain (formatted_history chat_history) = Inr summary \<longrightarrow>
      generate_summary summary_chain chat_history = strip summary \<and>
      (strip summary \<noteq> [] \<longrightarrow> \<not> isspace (hd (strip summary)) \<and> \<not> isspace (last (strip summary)))) \<and>
   summary_fallback \<noteq> []"
  using strip_trimmed[of summary]
  by (simp add: generate_summary_def generate_summary_try_def summary_fallback_nonempty)

lemma format_message_human:
  "format_message \<lparr>msg_type = human, msg_content = t\<rparr> = \<lparr>role = ''user'', content = t\<rparr>"
  "format_message \<lparr>msg_type = ai, msg_content = t\<rparr> = \<lparr>role = ''assistant'', content = t\<rparr>"
  by (simp_all add: format_message_def)

lemma talked_history:
  "map format_message (messages (memory talked_session)) =
   [\<lparr>role = ''user'', content = ''hola''\<rparr>, \<lparr>role = ''assistant'', content = ''dime''\<rparr>]"
  by (simp add: talked_session_def save_context_def greeted_new_fields format_message_human)

lemma formatted_talked:
  "formatted_history [\<lparr>role = ''user'', content = ''hola''\<rparr>, \<lparr>role = ''assistant'', content = ''dime''\<rparr>]
   = ''User: hola'' @ [CHR 0x0A] @ ''Assistant: dime''"
  by code_simp

text \<open>
  Claim C6, evaluated on a chain that raises and on a chain that returns a text with
  whitespace around it.
\<close>

theorem generate_summary_spec_witness:
  "down_summary_chain (formatted_history [\<lparr>role = ''user'', content = ''hola''\<rparr>, \<lparr>role = ''assistant'', content = ''dime''\<rparr>])
     = Inl (Exception ''timeout'') \<and>
   generate_summary down_summary_chain
     [\<lparr>role = ''user'', content = ''hola''\<rparr>, \<lparr>role = ''assistant'', content = ''dime''\<rparr>] = summary_fallback \<and>
   generate_summary ok_summary_chain
     [\<lparr>role = ''user'', content = ''hola''\<rparr>, \<lparr>role = ''assistant'', content = ''dime''\<rparr>]
     = ''Resumen de User: hola'' @ [CHR 0x0A] @ ''Assistant: dime''"
proof -
  let ?h = "[\<lparr>role = ''user'', content = ''hola''\<rparr>, \<lparr>role = ''assistant'', content = ''dime''\<rparr>]"
  have d: "down_summary_chain (formatted_history ?h) = Inl (Exception ''timeout'')"
    by (simp add: down_summary_chain_def)
  have k: "ok_summary_chain (formatted_history ?h)
           = Inr ('' Resumen de '' @ (''User: hola'' @ [CHR 0x0A] @ ''Assistant: dime'') @ [CHR 0x0A])"
    by (simp only: ok_summary_chain_def formatted_talked)
  have st: "strip ('' Resumen de '' @ (''User: hola'' @ [CHR 0x0A] @ ''Assistant: dime'') @ [CHR 0x0A])
            = ''Resumen de User: hola'' @ [CHR 0x0A] @ ''Assistant: dime''"
    by (simp add: strip_def isspace_def)
  from generate_summary_spec [of down_summary_chain ?h "Exception ''timeout''"] d
  have r1: "generate_summary down_summary_chain ?h = summary_fallback" by blast
  from generate_summary_spec [where summary_chain = ok_summary_chain and chat_history = ?h
      and summary = "'' Resumen de '' @ (''User: hola'' @ [CHR 0x0A] @ ''Assistant: dime'') @ [CHR 0x0A]"] k
  have r2: "generate_summary ok_summary_chain ?h =
     strip ('' Resumen de '' @ (''User: hola'' @ [CHR 0x0A] @ ''Assistant: dime'') @ [CHR 0x0A])" by blast
  from d r1 r2 show ?thesis by (simp only: st simp_thms)
qed

text \<open>
  Claim C5. With the session store present, \<open>create_summary\<close> fails with status 404
  exactly when the session is unknown or its history is empty. With a non-empty history
  and the chatbot service present, the summary of that history is generated and mailed:
  the result is the success message, or status 500 when the mail is not sent.
\<close>

theorem create_summary_not_found:
  "((\<exists>detail. create_summary (Some sessions) chatbot_service send_summary_email request
        = Inl (HTTPException 404 detail)) \<longleftrightarrow>
      (sessions (request_session_id request) = None \<or>
       fst (get_history sessions (request_session_id request)) = Some [])) \<and>
   (\<forall>history summary_chain.
      fst (get_history sessions (request_session_id request)) = Some history \<and> history \<noteq> [] \<and>
      chatbot_service = Some summary_chain \<longrightarrow>
      create_summary (Some sessions) chatbot_service send_summary_email request =
        (if send_summary_email (request_email request) (generate_summary summary_chain history)
         then Inr ''Resumen enviado exitosamente''
         else Inl (HTTPException 500 ''Error al enviar el correo'')))"
proof (intro conjI allI impI)
  show "(\<exists>detail. create_summary (Some sessions) chatbot_service send_summary_email request
        = Inl (HTTPException 404 detail)) \<longleftrightarrow>
      (sessions (request_session_id request) = None \<or>
       fst (get_history sessions (request_session_id request)) = Some [])"
    by (cases "sessions (request_session_id request)"; cases chatbot_service)
       (simp_all add: create_summary_def get_history_eq Let_def)
next
  fix history summary_chain
  assume "fst (get_history sessions (request_session_id request)) = Some history \<and> history \<noteq> [] \<and>
      chatbot_service = Some summary_chain"
  then show "create_summary (Some sessions) chatbot_service send_summary_email request =
        (if send_summary_email (request_email request) (generate_summary summary_chain history)
         then Inr ''Resumen enviado exitosamente''
         else Inl (HTTPException 500 ''Error al enviar el correo''))"
    by (simp add: create_summary_def Let_def)
qed

text \<open>
  Claim C5, evaluated: a session without messages, an unknown session, and a session with
  one exchange.
\<close>

theorem create_summary_not_found_witness:
  "(\<exists>detail. create_summary (Some [''s1'' \<mapsto> greeted_new]) (Some ok_summary_chain) mail_ok
       \<lparr>request_session_id = ''s1'', request_email = ''marta@example.org''\<rparr> = Inl (HTTPException 404 detail)) \<and>
   (\<exists>detail. create_summary (Some [''s1'' \<mapsto> greeted_new]) (Some ok_summary_chain) mail_ok
       \<lparr>request_session_id = ''s2'', request_email = ''marta@example.org''\<rparr> = Inl (HTTPException 404 detail)) \<and>
   create_summary (Some [''s1'' \<mapsto> talked_session]) (Some ok_summary_chain) mail_ok
       \<lparr>request_session_id = ''s1'', request_email = ''marta@example.org''\<rparr> = Inr ''Resumen enviado exitosamente''"
proof -
  let ?r1 = "\<lparr>request_session_id = ''s1'', request_email = ''marta@example.org''\<rparr>"
  let ?r2 = "\<lparr>request_session_id = ''s2'', request_email = ''marta@example.org''\<rparr>"
  have e: "fst (get_history [''s1'' \<mapsto> greeted_new] (request_session_id ?r1)) = Some []"
    by (simp add: get_history_eq greeted_new_fields)
  have u: "[''s1'' \<mapsto> greeted_new] (request_session_id ?r2) = None" by simp
  have t: "fst (get_history [''s1'' \<mapsto> talked_session] (request_session_id ?r1)) =
           Some [\<lparr>role = ''user'', content = ''hola''\<rparr>, \<lparr>role = ''assistant'', content = ''dime''\<rparr>]"
    by (simp add: get_history_eq talked_history)
  from create_summary_not_found [of "[''s1'' \<mapsto> greeted_new]" "Some ok_summary_chain" mail_ok ?r1] e
  have a: "\<exists>detail. create_summary (Some [''s1'' \<mapsto> greeted_new]) (Some ok_summary_chain) mail_ok ?r1
           = Inl (HTTPException 404 detail)" by blast
  from create_summary_not_found [of "[''s1'' \<mapsto> greeted_new]" "Some ok_summary_chain" mail_ok ?r2] u
  have b: "\<exists>detail. create_summary (Some [''s1'' \<mapsto> greeted_new]) (Some ok_summary_chain) mail_ok ?r2
           = Inl (HTTPException 404 detail)" by blast
  from create_summary_not_found [of "[''s1'' \<mapsto> talked_session]" "Some ok_summary_chain" mail_ok ?r1] t
  have c: "create_summary (Some [''s1'' \<mapsto> talked_session]) (Some ok_summary_chain) mail_ok ?r1
           = Inr ''Resumen enviado exitosamente''"
    by (simp add: mail_ok_def)
  from a b c show ?thesis by blast
qed

end
